theory Spec2Isabelle
  imports Complex_Main "HOL-Library.Sublist" "HOL-Library.Word"
begin

section \<open>Python values used by the predictors\<close>

text \<open>
  Exceptions deriving from Python's \<open>Exception\<close>, each carrying the message that
  \<open>str(e)\<close> returns. \<open>SystemExit\<close> (raised by \<open>sys.exit\<close>) does not derive from
  \<open>Exception\<close>; it is modelled as the exit status returned by the \<open>main\<close> functions.
\<close>

datatype py_exception =
    FileNotFoundError string
  | ValueError string
  | IndexError string
  | AttributeError string
  | Exception string
  | FrameworkError string

fun str :: "py_exception \<Rightarrow> string" where
  "str (FileNotFoundError m) = m"
| "str (ValueError m) = m"
| "str (IndexError m) = m"
| "str (AttributeError m) = m"
| "str (Exception m) = m"
| "str (FrameworkError m) = m"

text \<open>\<open>str.lower()\<close> and \<open>str.upper()\<close> on ASCII text (the labels are ASCII).\<close>

definition ascii_upper :: string where
  "ascii_upper = ''ABCDEFGHIJKLMNOPQRSTUVWXYZ''"

definition ascii_lower :: string where
  "ascii_lower = ''abcdefghijklmnopqrstuvwxyz''"

definition lower_char :: "char \<Rightarrow> char" where
  "lower_char c = (case map_of (zip ascii_upper ascii_lower) c of Some d \<Rightarrow> d | None \<Rightarrow> c)"

definition upper_char :: "char \<Rightarrow> char" where
  "upper_char c = (case map_of (zip ascii_lower ascii_upper) c of Some d \<Rightarrow> d | None \<Rightarrow> c)"

definition lower :: "string \<Rightarrow> string" where
  "lower s = map lower_char s"

definition upper :: "string \<Rightarrow> string" where
  "upper s = map upper_char s"

text \<open>\<open>s.replace(old, new)\<close> for one-character \<open>old\<close> and \<open>new\<close>.\<close>

definition replace_char :: "char \<Rightarrow> char \<Rightarrow> string \<Rightarrow> string" where
  "replace_char old new s = map (\<lambda>c. if c = old then new else c) s"

text \<open>The substring test \<open>sub in s\<close>.\<close>

fun py_in :: "string \<Rightarrow> string \<Rightarrow> bool" where
  "py_in sub [] = (sub = [])"
| "py_in sub (c # cs) = (prefix sub (c # cs) \<or> py_in sub cs)"

text \<open>
  \<open>numpy.argmax\<close> on a one-dimensional array: a left-to-right scan that keeps the
  first position of the largest value seen; an empty array raises \<open>ValueError\<close>.
  Probabilities are modelled as reals.
\<close>

fun argmax_scan :: "real list \<Rightarrow> nat \<Rightarrow> nat \<Rightarrow> real \<Rightarrow> nat" where
  "argmax_scan [] i best_i best_v = best_i"
| "argmax_scan (x # xs) i best_i best_v =
     (if best_v < x then argmax_scan xs (Suc i) i x
      else argmax_scan xs (Suc i) best_i best_v)"

fun np_argmax :: "real list \<Rightarrow> py_exception + nat" where
  "np_argmax [] = Inl (ValueError ''attempt to get argmax of an empty sequence'')"
| "np_argmax (x # xs) = Inr (argmax_scan xs 1 0 x)"

text \<open>List indexing \<open>xs[i]\<close> with a non-negative index.\<close>

definition getitem :: "'a list \<Rightarrow> nat \<Rightarrow> py_exception + 'a" where
  "getitem xs i = (if i < length xs then Inr (xs ! i) else Inl (IndexError ''list index out of range''))"

text \<open>\<open>d.get(key, default)\<close>.\<close>

definition dict_get :: "('k \<rightharpoonup> 'v) \<Rightarrow> 'k \<Rightarrow> 'v \<Rightarrow> 'v" where
  "dict_get d k dflt = (case d k of Some v \<Rightarrow> v | None \<Rightarrow> dflt)"

section \<open>Data model\<close>

record pesticide_rec =
  name :: string
  dosage :: string
  type :: string

record advisory =
  description :: string
  treatment :: string
  pesticide :: pesticide_rec

record result = advisory +
  detected_class :: string
  confidence :: real

text \<open>
  An image as \<open>cv2.imread\<close> returns it: rows of pixels, each pixel three 8-bit
  channels. The tensor fed to the model is a nested list batch x height x width x channel.
\<close>

type_synonym pixel = "8 word \<times> 8 word \<times> 8 word"
type_synonym image = "pixel list list"
type_synonym tensor = "real list list list list"

text \<open>
  A loaded Keras model is its \<open>predict\<close> method: besides returning the predictions
  or raising, the call writes lines of its own (the progress bar) on standard output.
\<close>

type_synonym keras_model = "tensor \<Rightarrow> string list \<times> (py_exception + real list list)"

record DiseasePredictor =
  model_path :: string
  model :: "keras_model option"
  class_names :: "string list"
  disease_info :: "string \<rightharpoonup> advisory"

record PestPredictor =
  pest_model_path :: string
  pest_model :: "keras_model option"
  pest_class_names :: "string list"
  pest_info :: "string \<rightharpoonup> advisory"

text \<open>The file system and the external libraries (Keras, OpenCV).\<close>

record env =
  path_exists :: "string \<Rightarrow> bool"
  keras_load_model :: "string \<Rightarrow> py_exception + keras_model"
  cv2_imread :: "string \<Rightarrow> image option"
  cv2_resize :: "image \<Rightarrow> nat \<times> nat \<Rightarrow> image"

text \<open>What a run prints on standard output, line by line.\<close>

datatype json_value = ErrorObject string | ResultObject result

datatype stdout_line = Text string | Json json_value

section \<open>disease\_predictor.py\<close>

definition disease_class_names :: "string list" where
  "disease_class_names =
    [''Apple_scab'', ''Apple_Black_rot'', ''Apple_Cedar_apple_rust'', ''Apple_healthy'',
     ''Blueberry_healthy'', ''Cherry_Powdery_mildew'', ''Cherry_healthy'',
     ''Corn_Cercospora_leaf_spot'', ''Corn_Common_rust'', ''Corn_Northern_Leaf_Blight'', ''Corn_healthy'',
     ''Grape_Black_rot'', ''Grape_Esca'', ''Grape_Leaf_blight'', ''Grape_healthy'',
     ''Orange_Haunglongbing'', ''Peach_Bacterial_spot'', ''Peach_healthy'',
     ''Pepper_Bacterial_spot'', ''Pepper_healthy'',
     ''Potato_Early_blight'', ''Potato_Late_blight'', ''Potato_healthy'',
     ''Raspberry_healthy'', ''Soybean_healthy'',
     ''Squash_Powdery_mildew'', ''Strawberry_Leaf_scorch'', ''Strawberry_healthy'',
     ''Tomato_Bacterial_spot'', ''Tomato_Early_blight'', ''Tomato_Late_blight'',
     ''Tomato_Leaf_Mold'', ''Tomato_Septoria_leaf_spot'', ''Tomato_Spider_mites'',
     ''Tomato_Target_Spot'', ''Tomato_Yellow_Leaf_Curl_Virus'', ''Tomato_mosaic_virus'', ''Tomato_healthy'']"

definition mk_advisory :: "string \<Rightarrow> string \<Rightarrow> string \<Rightarrow> string \<Rightarrow> string \<Rightarrow> advisory" where
  "mk_advisory d t n ds ty =
     \<lparr>description = d, treatment = t, pesticide = \<lparr>name = n, dosage = ds, type = ty\<rparr>\<rparr>"

definition disease_info_table :: "(string \<times> advisory) list" where
  "disease_info_table =
    [(''Apple_scab'', mk_advisory
        ''Fungal disease causing dark, scaly lesions on leaves and fruit''
        ''Apply fungicides like Mancozeb or Copper sulfate''
        ''Mancozeb'' ''2-3 g/L'' ''Fungicide''),
     (''Apple_Black_rot'', mk_advisory
        ''Fungal disease causing black cankers on branches and fruit rot''
        ''Prune infected areas and apply Captan or Thiophanate-methyl''
        ''Captan'' ''2-3 g/L'' ''Fungicide''),
     (''Apple_Cedar_apple_rust'', mk_advisory
        ''Fungal disease causing yellow-orange spots on leaves''
        ''Apply Propiconazole or Myclobutanil fungicides''
        ''Propiconazole'' ''1-2 ml/L'' ''Fungicide''),
     (''Corn_Cercospora_leaf_spot'', mk_advisory
        ''Fungal disease causing small rectangular lesions on leaves''
        ''Apply Azoxystrobin or Tebuconazole fungicides''
        ''Azoxystrobin'' ''1-1.5 ml/L'' ''Fungicide''),
     (''Corn_Common_rust'', mk_advisory
        ''Fungal disease causing small oval rust pustules on leaves''
        ''Apply Chlorothalonil or Propiconazole fungicides''
        ''Chlorothalonil'' ''2-3 ml/L'' ''Fungicide''),
     (''Corn_Northern_Leaf_Blight'', mk_advisory
        ''Fungal disease causing large grayish-green lesions on leaves''
        ''Apply Mancozeb or Azoxystrobin fungicides''
        ''Mancozeb'' ''2-3 g/L'' ''Fungicide''),
     (''Tomato_Early_blight'', mk_advisory
        ''Fungal disease causing brown spots with concentric rings on leaves''
        ''Apply Chlorothalonil or Mancozeb fungicides''
        ''Chlorothalonil'' ''2-3 ml/L'' ''Fungicide''),
     (''Tomato_Late_blight'', mk_advisory
        ''Devastating fungal disease causing water-soaked lesions''
        ''Apply Metalaxyl or Copper-based fungicides immediately''
        ''Metalaxyl'' ''2-3 g/L'' ''Fungicide''),
     (''Tomato_Leaf_Mold'', mk_advisory
        ''Fungal disease causing yellow patches on upper leaf surface''
        ''Improve air circulation and apply Chlorothalonil''
        ''Chlorothalonil'' ''2-3 ml/L'' ''Fungicide'')]"

text \<open>The object built by \<open>DiseasePredictor.__init__\<close> before \<open>load_model\<close> runs.\<close>

definition new_DiseasePredictor :: "string \<Rightarrow> DiseasePredictor" where
  "new_DiseasePredictor path =
     \<lparr>model_path = path, model = None, class_names = disease_class_names,
      disease_info = map_of disease_info_table\<rparr>"

definition disease_fallback :: advisory where
  "disease_fallback = mk_advisory ''Disease detected''
     ''Consult agricultural expert for treatment''
     ''General Fungicide'' ''As per label'' ''Fungicide''"

definition healthy_record :: advisory where
  "healthy_record = mk_advisory ''Plant appears healthy''
     ''Continue regular care and monitoring''
     ''No treatment needed'' ''N/A'' ''N/A''"

definition mk_result :: "string \<Rightarrow> real \<Rightarrow> advisory \<Rightarrow> result" where
  "mk_result cls conf info =
     \<lparr>description = description info, treatment = treatment info,
      pesticide = pesticide info, detected_class = cls, confidence = conf\<rparr>"

text \<open>
  Lines 120-148 of \<open>DiseasePredictor.predict\<close>: from the probability vector
  \<open>predictions[0]\<close> to the response, before the enclosing \<open>except\<close> wraps a failure.
\<close>

definition disease_compose :: "DiseasePredictor \<Rightarrow> real list \<Rightarrow> py_exception + result" where
  "disease_compose self probs =
     (case np_argmax probs of
        Inl e \<Rightarrow> Inl e
      | Inr predicted_class_idx \<Rightarrow>
          let conf = probs ! predicted_class_idx in
          (case getitem (class_names self) predicted_class_idx of
             Inl e \<Rightarrow> Inl e
           | Inr predicted_class \<Rightarrow>
               let info = dict_get (disease_info self) predicted_class disease_fallback;
                   info' = (if py_in ''healthy'' (lower predicted_class) then healthy_record else info)
               in Inr (mk_result predicted_class conf info')))"

text \<open>
  \<open>preprocess_image\<close> (the same text in both predictor files). \<open>cv2.imread\<close> yields
  \<open>None\<close> for a file it cannot decode; \<open>cv2.resize\<close> is the library's interpolation.
\<close>

definition cvtColor_BGR2RGB :: "image \<Rightarrow> image" where
  "cvtColor_BGR2RGB img = map (map (\<lambda>(b, g, r). (r, g, b))) img"

definition astype_float32_div_255 :: "image \<Rightarrow> real list list list" where
  "astype_float32_div_255 img =
     map (map (\<lambda>(c0, c1, c2). [real (unat c0) / 255, real (unat c1) / 255, real (unat c2) / 255])) img"

definition expand_dims_axis0 :: "real list list list \<Rightarrow> tensor" where
  "expand_dims_axis0 img = [img]"

definition preprocess_image :: "env \<Rightarrow> string \<Rightarrow> py_exception + tensor" where
  "preprocess_image e image_path =
     (case cv2_imread e image_path of
        None \<Rightarrow>
          Inl (ValueError (''Error preprocessing image: '' @ str (ValueError ''Could not load image'')))
      | Some img \<Rightarrow>
          let img1 = cvtColor_BGR2RGB img;
              img2 = cv2_resize e img1 (224, 224);
              img3 = astype_float32_div_255 img2;
              img4 = expand_dims_axis0 img3
          in Inr img4)"

text \<open>
  \<open>load_model\<close> (the same text in both predictor files): returns the loaded model or
  the exception it re-raises, together with standard output after its \<open>print\<close>.
\<close>

definition load_model ::
  "env \<Rightarrow> string \<Rightarrow> stdout_line list \<Rightarrow> (py_exception + keras_model) \<times> stdout_line list" where
  "load_model e path out =
     (case (if path_exists e path then keras_load_model e path
            else Inl (FileNotFoundError (''Model file not found: '' @ path))) of
        Inl ex \<Rightarrow> (Inl ex, out @ [Text (''Error loading model: '' @ str ex)])
      | Inr m \<Rightarrow> (Inr m, out))"

definition DiseasePredictor_init ::
  "env \<Rightarrow> string \<Rightarrow> stdout_line list \<Rightarrow> (py_exception + DiseasePredictor) \<times> stdout_line list" where
  "DiseasePredictor_init e path out =
     (let self = new_DiseasePredictor path in
      case load_model e (model_path self) out of
        (Inl ex, out') \<Rightarrow> (Inl ex, out')
      | (Inr m, out') \<Rightarrow> (Inr (self\<lparr>model := Some m\<rparr>), out'))"

text \<open>
  \<open>self.model.predict(x)\<close>, with standard output after the lines Keras writes, and
  \<open>predictions[0]\<close>.
\<close>

definition model_predict ::
  "keras_model option \<Rightarrow> tensor \<Rightarrow> stdout_line list \<Rightarrow>
     (py_exception + real list list) \<times> stdout_line list" where
  "model_predict m x out =
     (case m of
        None \<Rightarrow>
          (Inl (AttributeError
                 (CHR 0x27 # ''NoneType' object has no attribute 'predict'' @ [CHR 0x27])), out)
      | Some f \<Rightarrow> (case f x of (written, r) \<Rightarrow> (r, out @ map Text written)))"

definition first_row :: "real list list \<Rightarrow> py_exception + real list" where
  "first_row predictions =
     (case predictions of
        [] \<Rightarrow> Inl (IndexError ''index 0 is out of bounds for axis 0 with size 0'')
      | probs # _ \<Rightarrow> Inr probs)"

text \<open>The body of a \<open>predict\<close> method up to the probability vector.\<close>

definition infer ::
  "env \<Rightarrow> keras_model option \<Rightarrow> string \<Rightarrow> stdout_line list \<Rightarrow>
     (py_exception + real list) \<times> stdout_line list" where
  "infer e m image_path out =
     (case preprocess_image e image_path of
        Inl ex \<Rightarrow> (Inl ex, out)
      | Inr processed_image \<Rightarrow>
          (case model_predict m processed_image out of
             (Inl ex, out') \<Rightarrow> (Inl ex, out')
           | (Inr predictions, out') \<Rightarrow> (first_row predictions, out')))"

text \<open>The enclosing \<open>except Exception as e: raise Exception(f"Prediction error: {str(e)}")\<close>.\<close>

definition wrap_prediction_error :: "py_exception + 'a \<Rightarrow> py_exception + 'a" where
  "wrap_prediction_error r =
     (case r of Inl ex \<Rightarrow> Inl (Exception (''Prediction error: '' @ str ex)) | Inr v \<Rightarrow> Inr v)"

definition disease_predict ::
  "env \<Rightarrow> DiseasePredictor \<Rightarrow> string \<Rightarrow> stdout_line list \<Rightarrow>
     (py_exception + result) \<times> stdout_line list" where
  "disease_predict e self image_path out =
     (case infer e (model self) image_path out of
        (Inl ex, out') \<Rightarrow> (wrap_prediction_error (Inl ex), out')
      | (Inr probs, out') \<Rightarrow> (wrap_prediction_error (disease_compose self probs), out'))"

text \<open>
  The \<open>__main__\<close> block: \<open>argv\<close> is \<open>sys.argv\<close>; the value is standard output and the
  exit status (0 when the block ends normally, 1 after \<open>sys.exit(1)\<close>).
\<close>

definition disease_usage :: string where
  "disease_usage = ''Usage: python disease_predictor.py <model_path> <image_path>''"

definition disease_main :: "env \<Rightarrow> string list \<Rightarrow> stdout_line list \<times> int" where
  "disease_main e argv =
     (if length argv \<noteq> 3 then ([Json (ErrorObject disease_usage)], 1)
      else
        let model_path = argv ! 1; image_path = argv ! 2 in
        case DiseasePredictor_init e model_path [] of
          (Inl ex, out) \<Rightarrow> (out @ [Json (ErrorObject (str ex))], 1)
        | (Inr predictor, out) \<Rightarrow>
            (case disease_predict e predictor image_path out of
               (Inl ex, out') \<Rightarrow> (out' @ [Json (ErrorObject (str ex))], 1)
             | (Inr res, out') \<Rightarrow> (out' @ [Json (ResultObject res)], 0)))"

section \<open>pest\_predictor.py\<close>

definition pest_class_names_list :: "string list" where
  "pest_class_names_list =
    [''aphids'', ''armyworm'', ''beetle'', ''bollworm'', ''earthworm'',
     ''grasshopper'', ''mites'', ''mosquito'', ''sawfly'', ''stem_borer'']"

definition pest_info_table :: "(string \<times> advisory) list" where
  "pest_info_table =
    [(''aphids'', mk_advisory
        ''Small soft-bodied insects that feed on plant sap''
        ''Apply Imidacloprid or use biological control with ladybugs''
        ''Imidacloprid'' ''0.5-1 ml/L'' ''Systemic Insecticide''),
     (''armyworm'', mk_advisory
        ''Caterpillars that feed on leaves and can cause severe defoliation''
        ''Apply Chlorantraniliprole or Spinetoram insecticides''
        ''Chlorantraniliprole'' ''150-300 ml/ha'' ''Systemic Insecticide''),
     (''beetle'', mk_advisory
        ''Hard-bodied insects that chew on leaves and stems''
        ''Apply Cypermethrin or use mechanical removal''
        ''Cypermethrin'' ''1-2 ml/L'' ''Contact Insecticide''),
     (''bollworm'', mk_advisory
        ''Caterpillars that bore into cotton bolls and other fruits''
        ''Apply Emamectin benzoate or Profenofos''
        ''Emamectin benzoate'' ''0.5 g/L'' ''Systemic Insecticide''),
     (''earthworm'', mk_advisory
        ''Beneficial organisms that improve soil health''
        ''No treatment needed - earthworms are beneficial for soil''
        ''No treatment needed'' ''N/A'' ''Beneficial''),
     (''grasshopper'', mk_advisory
        ''Jumping insects that feed on leaves and can cause defoliation''
        ''Apply Carbaryl or use biological control with Nosema locustae''
        ''Carbaryl'' ''2-3 g/L'' ''Contact Insecticide''),
     (''mites'', mk_advisory
        ''Tiny arachnids that cause stippling and yellowing of leaves''
        ''Apply Abamectin or increase humidity around plants''
        ''Abamectin'' ''1-2 ml/L'' ''Acaricide''),
     (''mosquito'', mk_advisory
        ''Flying insects; adults are not harmful to plants''
        ''Control breeding sites and use Bt for larvae''
        ''Bacillus thuringiensis'' ''1-2 g/L'' ''Biological''),
     (''sawfly'', mk_advisory
        ''Wasp-like insects whose larvae feed on leaves''
        ''Apply Spinosad or use biological control''
        ''Spinosad'' ''1-2 ml/L'' ''Biological Insecticide''),
     (''stem_borer'', mk_advisory
        ''Caterpillars that bore into plant stems causing wilting''
        ''Apply Chlorantraniliprole or Cartap hydrochloride''
        ''Chlorantraniliprole'' ''150-300 ml/ha'' ''Systemic Insecticide'')]"

definition new_PestPredictor :: "string \<Rightarrow> PestPredictor" where
  "new_PestPredictor path =
     \<lparr>pest_model_path = path, pest_model = None, pest_class_names = pest_class_names_list,
      pest_info = map_of pest_info_table\<rparr>"

definition pest_fallback :: advisory where
  "pest_fallback = mk_advisory ''Pest detected''
     ''Consult agricultural expert for treatment''
     ''General Insecticide'' ''As per label'' ''Insecticide''"

text \<open>Lines 115-135 of \<open>PestPredictor.predict\<close>.\<close>

definition pest_compose :: "PestPredictor \<Rightarrow> real list \<Rightarrow> py_exception + result" where
  "pest_compose self probs =
     (case np_argmax probs of
        Inl e \<Rightarrow> Inl e
      | Inr predicted_class_idx \<Rightarrow>
          let conf = probs ! predicted_class_idx in
          (case getitem (pest_class_names self) predicted_class_idx of
             Inl e \<Rightarrow> Inl e
           | Inr predicted_class \<Rightarrow>
               let info = dict_get (pest_info self) predicted_class pest_fallback
               in Inr (mk_result (replace_char (CHR ''_'') (CHR '' '') (upper predicted_class)) conf info)))"

definition PestPredictor_init ::
  "env \<Rightarrow> string \<Rightarrow> stdout_line list \<Rightarrow> (py_exception + PestPredictor) \<times> stdout_line list" where
  "PestPredictor_init e path out =
     (let self = new_PestPredictor path in
      case load_model e (pest_model_path self) out of
        (Inl ex, out') \<Rightarrow> (Inl ex, out')
      | (Inr m, out') \<Rightarrow> (Inr (self\<lparr>pest_model := Some m\<rparr>), out'))"

definition pest_predict ::
  "env \<Rightarrow> PestPredictor \<Rightarrow> string \<Rightarrow> stdout_line list \<Rightarrow>
     (py_exception + result) \<times> stdout_line list" where
  "pest_predict e self image_path out =
     (case infer e (pest_model self) image_path out of
        (Inl ex, out') \<Rightarrow> (wrap_prediction_error (Inl ex), out')
      | (Inr probs, out') \<Rightarrow> (wrap_prediction_error (pest_compose self probs), out'))"

definition pest_usage :: string where
  "pest_usage = ''Usage: python pest_predictor.py <model_path> <image_path>''"

definition pest_main :: "env \<Rightarrow> string list \<Rightarrow> stdout_line list \<times> int" where
  "pest_main e argv =
     (if length argv \<noteq> 3 then ([Json (ErrorObject pest_usage)], 1)
      else
        let model_path = argv ! 1; image_path = argv ! 2 in
        case PestPredictor_init e model_path [] of
          (Inl ex, out) \<Rightarrow> (out @ [Json (ErrorObject (str ex))], 1)
        | (Inr predictor, out) \<Rightarrow>
            (case pest_predict e predictor image_path out of
               (Inl ex, out') \<Rightarrow> (out' @ [Json (ErrorObject (str ex))], 1)
             | (Inr res, out') \<Rightarrow> (out' @ [Json (ResultObject res)], 0)))"

section \<open>Shapes and ranges of tensors\<close>

definition image_has_size :: "image \<Rightarrow> nat \<Rightarrow> nat \<Rightarrow> bool" where
  "image_has_size img h w = (length img = h \<and> list_all (\<lambda>row. length row = w) img)"

definition has_shape :: "tensor \<Rightarrow> nat \<times> nat \<times> nat \<times> nat \<Rightarrow> bool" where
  "has_shape t s =
     (case s of (n, h, w, c) \<Rightarrow>
        length t = n \<and>
        list_all (\<lambda>img. length img = h \<and>
          list_all (\<lambda>row. length row = w \<and> list_all (\<lambda>px. length px = c) row) img) t)"

definition tensor_values :: "tensor \<Rightarrow> real list" where
  "tensor_values t = concat (concat (concat t))"

section \<open>A sample environment\<close>

text \<open>
  Two model files exist and load, the loaded model writing one progress line per call;
  one image decodes (a single pixel); resizing fills the requested size with the first
  pixel.
\<close>

definition demo_env :: env where
  "demo_env =
     \<lparr>path_exists = (\<lambda>p. p = ''disease_model.h5'' \<or> p = ''pest_model.h5''),
      keras_load_model = (\<lambda>p. Inr (\<lambda>t. ([''1/1 - 0s''], Inr [ [1/10, 7/10, 2/10] ]))),
      cv2_imread = (\<lambda>p. if p = ''leaf.jpg'' then Some [ [(10, 20, 30)] ] else None),
      cv2_resize = (\<lambda>img (w, h). replicate h (replicate w (img ! 0 ! 0)))\<rparr>"

section \<open>The argmax selection\<close>

text \<open>
  Invariant of the scan: with \<open>pre\<close> the part already read, \<open>best_i\<close> is the first
  position of the largest value of \<open>pre\<close>.
\<close>

lemma argmax_scan_inv:
  "length pre = i \<Longrightarrow> best_i < i \<Longrightarrow> pre ! best_i = best_v \<Longrightarrow>
   (\<forall>j<i. pre ! j \<le> best_v) \<Longrightarrow> (\<forall>j<best_i. pre ! j < best_v) \<Longrightarrow>
   argmax_scan xs i best_i best_v < length (pre @ xs) \<and>
   (\<forall>j<length (pre @ xs). (pre @ xs) ! j \<le> (pre @ xs) ! argmax_scan xs i best_i best_v) \<and>
   (\<forall>j<argmax_scan xs i best_i best_v. (pre @ xs) ! j < (pre @ xs) ! argmax_scan xs i best_i best_v)"
proof (induction xs arbitrary: pre i best_i best_v)
  case Nil
  then show ?case by simp
next
  case (Cons x xs)
  let ?pre = "pre @ [x]"
  have len: "length ?pre = Suc i" using Cons.prems(1) by simp
  show ?case
  proof (cases "best_v < x")
    case True
    have a: "i < Suc i" by simp
    have b: "?pre ! i = x" using Cons.prems(1) by (auto simp: nth_append)
    have c: "\<forall>j<Suc i. ?pre ! j \<le> x"
      using Cons.prems(1,4) True by (auto simp: nth_append less_Suc_eq)
    have d: "\<forall>j<i. ?pre ! j < x"
      using Cons.prems(1,4) True by (auto simp: nth_append intro: le_less_trans)
    from Cons.IH[OF len a b c d] True show ?thesis by simp
  next
    case False
    have a: "best_i < Suc i" using Cons.prems(2) by simp
    have b: "?pre ! best_i = best_v" using Cons.prems(1,2,3) by (simp add: nth_append)
    have c: "\<forall>j<Suc i. ?pre ! j \<le> best_v"
      using Cons.prems(1,4) False by (auto simp: nth_append less_Suc_eq)
    have d: "\<forall>j<best_i. ?pre ! j < best_v"
      using Cons.prems(1,2,5) by (auto simp: nth_append)
    from Cons.IH[OF len a b c d] False show ?thesis by simp
  qed
qed

lemma np_argmax_first_max:
  assumes "probs \<noteq> []"
  shows "\<exists>i. np_argmax probs = Inr i \<and> i < length probs \<and>
             (\<forall>j<length probs. probs ! j \<le> probs ! i) \<and> (\<forall>j<i. probs ! j < probs ! i)"
proof -
  obtain x xs where p: "probs = x # xs" using assms by (cases probs) auto
  have "argmax_scan xs 1 0 x < length ([x] @ xs) \<and>
   (\<forall>j<length ([x] @ xs). ([x] @ xs) ! j \<le> ([x] @ xs) ! argmax_scan xs 1 0 x) \<and>
   (\<forall>j<argmax_scan xs 1 0 x. ([x] @ xs) ! j < ([x] @ xs) ! argmax_scan xs 1 0 x)"
    by (rule argmax_scan_inv) simp_all
  then show ?thesis using p by simp
qed

text \<open>The composers on a vector whose argmax is a valid label index.\<close>

lemma disease_compose_in_range:
  "np_argmax probs = Inr i \<Longrightarrow> i < length (class_names self) \<Longrightarrow>
   disease_compose self probs =
     Inr (mk_result (class_names self ! i) (probs ! i)
            (if py_in ''healthy'' (lower (class_names self ! i)) then healthy_record
             else dict_get (disease_info self) (class_names self ! i) disease_fallback))"
  by (simp add: disease_compose_def getitem_def)

lemma pest_compose_in_range:
  "np_argmax probs = Inr i \<Longrightarrow> i < length (pest_class_names self) \<Longrightarrow>
   pest_compose self probs =
     Inr (mk_result (replace_char (CHR ''_'') (CHR '' '') (upper (pest_class_names self ! i))) (probs ! i)
            (dict_get (pest_info self) (pest_class_names self ! i) pest_fallback))"
  by (simp add: pest_compose_def getitem_def)


text \<open>
  C1. For every non-empty probability vector the composer selects an index holding the
  maximum value, every earlier position being strictly smaller (the first occurrence
  wins a tie), and the confidence of the response is the vector's value at that index,
  unchanged. For the vector [0.1, 0.7, 0.2] the index is 1 and the confidence 0.7.
\<close>

theorem argmax_selection:
  "probs \<noteq> [] \<Longrightarrow>
   (\<exists>i. np_argmax probs = Inr i \<and> i < length probs \<and>
      (\<forall>j<length probs. probs ! j \<le> probs ! i) \<and>
      (\<forall>j<i. probs ! j < probs ! i) \<and>
      (i < length (class_names dp) \<longrightarrow>
         (\<exists>r. disease_compose dp probs = Inr r \<and> confidence r = probs ! i \<and>
              detected_class r = class_names dp ! i)) \<and>
      (i < length (pest_class_names pp) \<longrightarrow>
         (\<exists>r. pest_compose pp probs = Inr r \<and> confidence r = probs ! i))) \<and>
   np_argmax [0.1, 0.7, 0.2] = Inr 1 \<and>
   (\<exists>r. disease_compose (new_DiseasePredictor path) [0.1, 0.7, 0.2] = Inr r \<and> confidence r = 0.7)"
proof -
  assume ne: "probs \<noteq> []"
  from np_argmax_first_max[OF ne] obtain i where i: "np_argmax probs = Inr i" "i < length probs"
    "\<forall>j<length probs. probs ! j \<le> probs ! i" "\<forall>j<i. probs ! j < probs ! i" by blast
  have d: "i < length (class_names dp) \<longrightarrow>
              (\<exists>r. disease_compose dp probs = Inr r \<and> confidence r = probs ! i \<and>
                   detected_class r = class_names dp ! i)"
    using disease_compose_in_range[OF i(1)] by (simp add: mk_result_def)
  have p: "i < length (pest_class_names pp) \<longrightarrow>
              (\<exists>r. pest_compose pp probs = Inr r \<and> confidence r = probs ! i)"
    using pest_compose_in_range[OF i(1)] by (simp add: mk_result_def)
  have g: "\<exists>i. np_argmax probs = Inr i \<and> i < length probs \<and>
           (\<forall>j<length probs. probs ! j \<le> probs ! i) \<and>
           (\<forall>j<i. probs ! j < probs ! i) \<and>
           (i < length (class_names dp) \<longrightarrow>
              (\<exists>r. disease_compose dp probs = Inr r \<and> confidence r = probs ! i \<and>
                   detected_class r = class_names dp ! i)) \<and>
           (i < length (pest_class_names pp) \<longrightarrow>
              (\<exists>r. pest_compose pp probs = Inr r \<and> confidence r = probs ! i))"
    using i d p by blast
  have a: "np_argmax [0.1, 0.7, 0.2] = Inr 1" by simp
  have c: "\<exists>r. disease_compose (new_DiseasePredictor path) [0.1, 0.7, 0.2] = Inr r \<and> confidence r = 0.7"
    using disease_compose_in_range[OF a, of "new_DiseasePredictor path"]
    by (simp add: new_DiseasePredictor_def disease_class_names_def mk_result_def)
  from g a c show ?thesis by blast
qed

theorem argmax_selection_witness:
  "[0.3, 0.3, 0.2] \<noteq> ([] :: real list) \<and>
   np_argmax [0.3, 0.3, 0.2] = Inr 0 \<and>
   (\<exists>r. pest_compose (new_PestPredictor ''pest_model.h5'') [0.3, 0.3, 0.2] = Inr r \<and> confidence r = 0.3)"
proof -
  have ne: "[0.3, 0.3, 0.2] \<noteq> ([] :: real list)" by simp
  have a: "np_argmax [0.3, 0.3, 0.2] = Inr 0" by simp
  from argmax_selection[OF ne, of "new_DiseasePredictor ''m''" "new_PestPredictor ''pest_model.h5''" "''m''"]
  have "\<exists>r. pest_compose (new_PestPredictor ''pest_model.h5'') [0.3, 0.3, 0.2] = Inr r \<and> confidence r = 0.3"
    by (simp add: new_PestPredictor_def pest_class_names_list_def)
  with ne a show ?thesis by blast
qed

section \<open>The label lists\<close>

theorem label_counts_counterexample:
  "\<not> (length disease_class_names = 37 \<and> length pest_class_names_list = 10)"
  by (simp add: disease_class_names_def)

text \<open>
  C3 (amended). The disease label list has exactly 38 entries and the pest label list
  exactly 10, without repetition.
\<close>

theorem label_counts:
  "length (class_names (new_DiseasePredictor p)) = 38 \<and>
   length (pest_class_names (new_PestPredictor q)) = 10 \<and>
   distinct disease_class_names \<and> distinct pest_class_names_list"
  by (simp add: new_DiseasePredictor_def new_PestPredictor_def disease_class_names_def pest_class_names_list_def)

section \<open>Rejection of probability vectors\<close>

text \<open>The first position of the maximum is unique, so it characterises \<open>np_argmax\<close>.\<close>

lemma first_max_unique:
  fixes p :: "real list"
  assumes "i < length p" "i' < length p"
    "\<forall>j<length p. p ! j \<le> p ! i" "\<forall>j<i. p ! j < p ! i"
    "\<forall>j<length p. p ! j \<le> p ! i'" "\<forall>j<i'. p ! j < p ! i'"
  shows "i = i'"
proof (rule ccontr)
  assume "i \<noteq> i'"
  then consider "i < i'" | "i' < i" by linarith
  then show False
  proof cases
    case 1
    with assms(6) have "p ! i < p ! i'" by blast
    moreover from assms(2,3) have "p ! i' \<le> p ! i" by blast
    ultimately show False by simp
  next
    case 2
    with assms(4) have "p ! i' < p ! i" by blast
    moreover from assms(1,5) have "p ! i \<le> p ! i'" by blast
    ultimately show False by simp
  qed
qed

lemma np_argmax_iff:
  "np_argmax probs = Inr i \<longleftrightarrow>
     i < length probs \<and> (\<forall>j<length probs. probs ! j \<le> probs ! i) \<and> (\<forall>j<i. probs ! j < probs ! i)"
proof (cases "probs = []")
  case True
  then show ?thesis by simp
next
  case False
  from np_argmax_first_max[OF False] obtain k where k: "np_argmax probs = Inr k" "k < length probs"
    "\<forall>j<length probs. probs ! j \<le> probs ! k" "\<forall>j<k. probs ! j < probs ! k" by blast
  show ?thesis
  proof
    assume "np_argmax probs = Inr i"
    with k show "i < length probs \<and> (\<forall>j<length probs. probs ! j \<le> probs ! i) \<and> (\<forall>j<i. probs ! j < probs ! i)"
      by simp
  next
    assume a: "i < length probs \<and> (\<forall>j<length probs. probs ! j \<le> probs ! i) \<and> (\<forall>j<i. probs ! j < probs ! i)"
    have "i = k" using first_max_unique[of i probs k] a k by blast
    with k show "np_argmax probs = Inr i" by simp
  qed
qed

lemma disease_compose_isl:
  "isl (disease_compose dp probs) \<longleftrightarrow>
     (case np_argmax probs of Inl _ \<Rightarrow> True | Inr i \<Rightarrow> length (class_names dp) \<le> i)"
  by (auto simp: disease_compose_def getitem_def Let_def split: sum.splits)

lemma pest_compose_isl:
  "isl (pest_compose pp probs) \<longleftrightarrow>
     (case np_argmax probs of Inl _ \<Rightarrow> True | Inr i \<Rightarrow> length (pest_class_names pp) \<le> i)"
  by (auto simp: pest_compose_def getitem_def Let_def split: sum.splits)

lemma np_argmax_cases:
  "(case np_argmax probs of Inl _ \<Rightarrow> True | Inr i \<Rightarrow> n \<le> i) \<longleftrightarrow>
     probs = [] \<or> (\<exists>i<length probs. n \<le> i \<and> (\<forall>j<length probs. probs ! j \<le> probs ! i) \<and>
                      (\<forall>j<i. probs ! j < probs ! i))"
proof (cases "probs = []")
  case True
  then show ?thesis by simp
next
  case False
  from np_argmax_first_max[OF False] obtain k where k: "np_argmax probs = Inr k" by blast
  have kp: "k < length probs \<and> (\<forall>j<length probs. probs ! j \<le> probs ! k) \<and> (\<forall>j<k. probs ! j < probs ! k)"
    using np_argmax_iff[THEN iffD1, OF k] .
  have "(\<exists>i<length probs. n \<le> i \<and> (\<forall>j<length probs. probs ! j \<le> probs ! i) \<and>
                      (\<forall>j<i. probs ! j < probs ! i)) \<longleftrightarrow> n \<le> k"
  proof
    assume "\<exists>i<length probs. n \<le> i \<and> (\<forall>j<length probs. probs ! j \<le> probs ! i) \<and>
                      (\<forall>j<i. probs ! j < probs ! i)"
    then obtain i where i: "i < length probs" "n \<le> i" "\<forall>j<length probs. probs ! j \<le> probs ! i"
      "\<forall>j<i. probs ! j < probs ! i" by blast
    then have "np_argmax probs = Inr i" using np_argmax_iff[THEN iffD2, of i probs] by blast
    with k i(2) show "n \<le> k" by simp
  next
    assume "n \<le> k"
    with kp show "\<exists>i<length probs. n \<le> i \<and> (\<forall>j<length probs. probs ! j \<le> probs ! i) \<and>
                      (\<forall>j<i. probs ! j < probs ! i)" by blast
  qed
  with False k show ?thesis by simp
qed

theorem mismatched_length_counterexample:
  "length [9/10, 1/10 :: real] \<noteq> length (pest_class_names (new_PestPredictor ''pest_model.h5'')) \<and>
   pest_compose (new_PestPredictor ''pest_model.h5'') [9/10, 1/10] =
     Inr (mk_result ''APHIDS'' (9/10)
           (mk_advisory ''Small soft-bodied insects that feed on plant sap''
              ''Apply Imidacloprid or use biological control with ladybugs''
              ''Imidacloprid'' ''0.5-1 ml/L'' ''Systemic Insecticide''))"
  by (simp add: pest_compose_def new_PestPredictor_def pest_class_names_list_def getitem_def
      dict_get_def pest_info_table_def upper_def upper_char_def ascii_lower_def ascii_upper_def
      replace_char_def mk_result_def mk_advisory_def)

text \<open>
  C2 (amended). The composers compare no lengths. A probability vector is rejected
  exactly when it is empty or the first position of its maximum is not an index of
  the label list; every non-empty vector no longer than the label list produces a result.
\<close>

theorem rejection_iff_argmax_outside_labels:
  "(isl (disease_compose dp probs) \<longleftrightarrow>
      probs = [] \<or> (\<exists>i<length probs. length (class_names dp) \<le> i \<and>
                       (\<forall>j<length probs. probs ! j \<le> probs ! i) \<and> (\<forall>j<i. probs ! j < probs ! i))) \<and>
   (isl (pest_compose pp probs) \<longleftrightarrow>
      probs = [] \<or> (\<exists>i<length probs. length (pest_class_names pp) \<le> i \<and>
                       (\<forall>j<length probs. probs ! j \<le> probs ! i) \<and> (\<forall>j<i. probs ! j < probs ! i))) \<and>
   (probs \<noteq> [] \<and> length probs \<le> length (class_names dp) \<longrightarrow> \<not> isl (disease_compose dp probs)) \<and>
   (probs \<noteq> [] \<and> length probs \<le> length (pest_class_names pp) \<longrightarrow> \<not> isl (pest_compose pp probs))"
proof -
  have d: "isl (disease_compose dp probs) \<longleftrightarrow>
      probs = [] \<or> (\<exists>i<length probs. length (class_names dp) \<le> i \<and>
                       (\<forall>j<length probs. probs ! j \<le> probs ! i) \<and> (\<forall>j<i. probs ! j < probs ! i))"
    unfolding disease_compose_isl by (rule np_argmax_cases)
  have p: "isl (pest_compose pp probs) \<longleftrightarrow>
      probs = [] \<or> (\<exists>i<length probs. length (pest_class_names pp) \<le> i \<and>
                       (\<forall>j<length probs. probs ! j \<le> probs ! i) \<and> (\<forall>j<i. probs ! j < probs ! i))"
    unfolding pest_compose_isl by (rule np_argmax_cases)
  have d': "probs \<noteq> [] \<and> length probs \<le> length (class_names dp) \<longrightarrow> \<not> isl (disease_compose dp probs)"
    unfolding d by auto
  have p': "probs \<noteq> [] \<and> length probs \<le> length (pest_class_names pp) \<longrightarrow> \<not> isl (pest_compose pp probs)"
    unfolding p by auto
  from d p d' p' show ?thesis by blast
qed

theorem rejection_iff_argmax_outside_labels_witness:
  "isl (pest_compose (new_PestPredictor ''pest_model.h5'') [0, 0, 0, 0, 0, 0, 0, 0, 0, 0, 1]) \<and>
   \<not> isl (disease_compose (new_DiseasePredictor ''disease_model.h5'') [0, 0, 0, 0, 0, 0, 0, 0, 0, 0, 1])"
  using rejection_iff_argmax_outside_labels[of "new_DiseasePredictor ''disease_model.h5''"
      "[0, 0, 0, 0, 0, 0, 0, 0, 0, 0, 1]" "new_PestPredictor ''pest_model.h5''"]
  by (simp add: pest_compose_isl new_PestPredictor_def pest_class_names_list_def
      new_DiseasePredictor_def disease_class_names_def)

section \<open>The advisory record of the response\<close>

text \<open>
  \<open>'healthy' in label.lower()\<close> holds whenever the label contains a piece that
  lower-cases to \<open>healthy\<close>.
\<close>

lemma py_in_sublist: "py_in sub s \<longleftrightarrow> sublist sub s"
  by (induction s) (simp_all add: sublist_Cons_right)

lemma py_in_lower:
  assumes "label = ps @ m @ ss" "lower m = h"
  shows "py_in h (lower label)"
proof -
  have "lower label = lower ps @ h @ lower ss"
    using assms by (simp add: lower_def)
  then show ?thesis
    unfolding py_in_sublist sublist_def by blast
qed

lemma Tomato_healthy_contains_healthy: "py_in ''healthy'' (lower ''Tomato_healthy'')"
  by (simp add: lower_def lower_char_def ascii_upper_def ascii_lower_def)

text \<open>
  C4. In the disease pipeline, whatever the advisory table holds, a predicted label
  containing "healthy" in any letter case gets the fixed no-treatment-needed record;
  the label \<open>Tomato_healthy\<close> yields the description "Plant appears healthy".
\<close>

theorem healthy_override:
  "np_argmax probs = Inr i \<Longrightarrow> i < length (class_names dp) \<Longrightarrow>
   ((\<exists>ps m ss. class_names dp ! i = ps @ m @ ss \<and> lower m = ''healthy'') \<longrightarrow>
      disease_compose dp probs = Inr (mk_result (class_names dp ! i) (probs ! i) healthy_record)) \<and>
   (class_names dp ! i = ''Tomato_healthy'' \<longrightarrow>
      (\<exists>r. disease_compose dp probs = Inr r \<and> description r = ''Plant appears healthy'' \<and>
           treatment r = ''Continue regular care and monitoring'' \<and>
           pesticide r = \<lparr>name = ''No treatment needed'', dosage = ''N/A'', type = ''N/A''\<rparr>))"
proof -
  assume a: "np_argmax probs = Inr i" and b: "i < length (class_names dp)"
  have 1: "(\<exists>ps m ss. class_names dp ! i = ps @ m @ ss \<and> lower m = ''healthy'') \<longrightarrow>
      disease_compose dp probs = Inr (mk_result (class_names dp ! i) (probs ! i) healthy_record)"
    using disease_compose_in_range[OF a b] py_in_lower by auto
  have 2: "class_names dp ! i = ''Tomato_healthy'' \<longrightarrow>
      (\<exists>r. disease_compose dp probs = Inr r \<and> description r = ''Plant appears healthy'' \<and>
           treatment r = ''Continue regular care and monitoring'' \<and>
           pesticide r = \<lparr>name = ''No treatment needed'', dosage = ''N/A'', type = ''N/A''\<rparr>)"
    using disease_compose_in_range[OF a b] Tomato_healthy_contains_healthy
    by (simp add: mk_result_def healthy_record_def mk_advisory_def)
  from 1 2 show ?thesis by blast
qed


theorem healthy_override_witness:
  "np_argmax [0, 0, 0, 0, 0, 0, 0, 0, 0, 0, 0, 0, 0, 0, 0, 0, 0, 0, 0, 0, 0, 0, 0, 0, 0, 0, 0, 0, 0, 0, 0, 0, 0, 0, 0, 0, 0, 1] = Inr 37 \<and>
   37 < length (class_names ((new_DiseasePredictor ''disease_model.h5'')\<lparr>disease_info := (\<lambda>_. Some disease_fallback)\<rparr>)) \<and>
   class_names ((new_DiseasePredictor ''disease_model.h5'')\<lparr>disease_info := (\<lambda>_. Some disease_fallback)\<rparr>) ! 37
     = ''Tomato_healthy'' \<and>
   (\<exists>r. disease_compose ((new_DiseasePredictor ''disease_model.h5'')\<lparr>disease_info := (\<lambda>_. Some disease_fallback)\<rparr>)
          [0, 0, 0, 0, 0, 0, 0, 0, 0, 0, 0, 0, 0, 0, 0, 0, 0, 0, 0, 0, 0, 0, 0, 0, 0, 0, 0, 0, 0, 0, 0, 0, 0, 0, 0, 0, 0, 1] = Inr r \<and>
        description r = ''Plant appears healthy'')"
proof -
  let ?D = "(new_DiseasePredictor ''disease_model.h5'')\<lparr>disease_info := (\<lambda>_. Some disease_fallback)\<rparr>"
  let ?P = "[0, 0, 0, 0, 0, 0, 0, 0, 0, 0, 0, 0, 0, 0, 0, 0, 0, 0, 0, 0, 0, 0, 0, 0, 0, 0, 0, 0, 0, 0, 0, 0, 0, 0, 0, 0, 0, 1] :: real list"
  have a: "np_argmax ?P = Inr 37" by simp
  have b: "37 < length (class_names ?D)"
    by (simp add: new_DiseasePredictor_def disease_class_names_def)
  have c: "class_names ?D ! 37 = ''Tomato_healthy''"
    by (simp add: new_DiseasePredictor_def disease_class_names_def)
  from healthy_override[OF a b] c
  have "\<exists>r. disease_compose ?D ?P = Inr r \<and> description r = ''Plant appears healthy''"
    by blast
  with a b c show ?thesis by blast
qed

text \<open>
  \<open>'healthy' in label.lower()\<close> holds exactly when some piece of the label
  lower-cases to \<open>healthy\<close>.
\<close>

lemma py_in_lower_iff:
  "py_in h (lower label) \<longleftrightarrow> (\<exists>ps m ss. label = ps @ m @ ss \<and> lower m = h)"
proof
  assume "py_in h (lower label)"
  then obtain ps' ss' where "map lower_char label = ps' @ h @ ss'"
    unfolding py_in_sublist sublist_def lower_def by blast
  then obtain ps r where 1: "label = ps @ r" "map lower_char r = h @ ss'"
    by (metis map_eq_append_conv)
  then obtain m ss where 2: "r = m @ ss" "map lower_char m = h"
    by (metis map_eq_append_conv)
  from 1 2 show "\<exists>ps m ss. label = ps @ m @ ss \<and> lower m = h"
    unfolding lower_def by blast
next
  assume "\<exists>ps m ss. label = ps @ m @ ss \<and> lower m = h"
  then show "py_in h (lower label)" using py_in_lower by blast
qed

theorem absent_healthy_label_counterexample:
  "np_argmax [0, 0, 0, 1] = Inr 3 \<and>
   class_names (new_DiseasePredictor ''disease_model.h5'') ! 3 = ''Apple_healthy'' \<and>
   disease_info (new_DiseasePredictor ''disease_model.h5'') ''Apple_healthy'' = None \<and>
   disease_compose (new_DiseasePredictor ''disease_model.h5'') [0, 0, 0, 1] =
     Inr \<lparr>description = ''Plant appears healthy'',
          treatment = ''Continue regular care and monitoring'',
          pesticide = \<lparr>name = ''No treatment needed'', dosage = ''N/A'', type = ''N/A''\<rparr>,
          detected_class = ''Apple_healthy'', confidence = 1\<rparr> \<and>
   ''Plant appears healthy'' \<noteq> ''Disease detected'' \<and>
   ''Continue regular care and monitoring'' \<noteq> ''Consult agricultural expert for treatment''"
  by (simp add: disease_compose_def new_DiseasePredictor_def getitem_def disease_class_names_def
      dict_get_def disease_info_table_def mk_result_def mk_advisory_def healthy_record_def
      lower_def lower_char_def ascii_upper_def ascii_lower_def)

text \<open>
  C5 (amended). A predicted label of the label list never makes a composer fail,
  whatever the advisory table holds. For a label absent from the table the pest response
  carries the generic fallback record (description, "Consult agricultural expert for
  treatment", generic pesticide); the disease response carries its generic fallback
  record when the label does not contain "healthy" in any letter case, and the
  no-treatment-needed record when it does.
\<close>

theorem advisory_fallback:
  "np_argmax probs = Inr i \<Longrightarrow>
   (i < length (class_names dp) \<longrightarrow> (\<exists>r. disease_compose dp probs = Inr r)) \<and>
   (i < length (pest_class_names pp) \<longrightarrow> (\<exists>r. pest_compose pp probs = Inr r)) \<and>
   (i < length (pest_class_names pp) \<and> pest_info pp (pest_class_names pp ! i) = None \<longrightarrow>
      (\<exists>r. pest_compose pp probs = Inr r \<and>
           description r = ''Pest detected'' \<and>
           treatment r = ''Consult agricultural expert for treatment'' \<and>
           pesticide r = \<lparr>name = ''General Insecticide'', dosage = ''As per label'', type = ''Insecticide''\<rparr>)) \<and>
   (i < length (class_names dp) \<and> disease_info dp (class_names dp ! i) = None \<and>
    \<not> (\<exists>ps m ss. class_names dp ! i = ps @ m @ ss \<and> lower m = ''healthy'') \<longrightarrow>
      (\<exists>r. disease_compose dp probs = Inr r \<and>
           description r = ''Disease detected'' \<and>
           treatment r = ''Consult agricultural expert for treatment'' \<and>
           pesticide r = \<lparr>name = ''General Fungicide'', dosage = ''As per label'', type = ''Fungicide''\<rparr>)) \<and>
   (i < length (class_names dp) \<and> disease_info dp (class_names dp ! i) = None \<and>
    (\<exists>ps m ss. class_names dp ! i = ps @ m @ ss \<and> lower m = ''healthy'') \<longrightarrow>
      (\<exists>r. disease_compose dp probs = Inr r \<and>
           description r = ''Plant appears healthy'' \<and>
           treatment r = ''Continue regular care and monitoring'' \<and>
           pesticide r = \<lparr>name = ''No treatment needed'', dosage = ''N/A'', type = ''N/A''\<rparr>))"
proof -
  assume a: "np_argmax probs = Inr i"
  let ?l = "class_names dp ! i"
  let ?pl = "pest_class_names pp ! i"
  have 1: "i < length (class_names dp) \<longrightarrow> (\<exists>r. disease_compose dp probs = Inr r)"
    using disease_compose_in_range[OF a] by blast
  have 2: "i < length (pest_class_names pp) \<longrightarrow> (\<exists>r. pest_compose pp probs = Inr r)"
    using pest_compose_in_range[OF a] by blast
  have 3: "i < length (pest_class_names pp) \<and> pest_info pp ?pl = None \<longrightarrow>
      (\<exists>r. pest_compose pp probs = Inr r \<and>
           description r = ''Pest detected'' \<and>
           treatment r = ''Consult agricultural expert for treatment'' \<and>
           pesticide r = \<lparr>name = ''General Insecticide'', dosage = ''As per label'', type = ''Insecticide''\<rparr>)"
    using pest_compose_in_range[OF a, of pp]
    by (simp add: dict_get_def mk_result_def pest_fallback_def mk_advisory_def)
  have 4: "i < length (class_names dp) \<and> disease_info dp ?l = None \<and>
    \<not> (\<exists>ps m ss. ?l = ps @ m @ ss \<and> lower m = ''healthy'') \<longrightarrow>
      (\<exists>r. disease_compose dp probs = Inr r \<and>
           description r = ''Disease detected'' \<and>
           treatment r = ''Consult agricultural expert for treatment'' \<and>
           pesticide r = \<lparr>name = ''General Fungicide'', dosage = ''As per label'', type = ''Fungicide''\<rparr>)"
    unfolding py_in_lower_iff[symmetric]
    using disease_compose_in_range[OF a, of dp]
    by (simp add: dict_get_def mk_result_def disease_fallback_def mk_advisory_def)
  have 5: "i < length (class_names dp) \<and> disease_info dp ?l = None \<and>
    (\<exists>ps m ss. ?l = ps @ m @ ss \<and> lower m = ''healthy'') \<longrightarrow>
      (\<exists>r. disease_compose dp probs = Inr r \<and>
           description r = ''Plant appears healthy'' \<and>
           treatment r = ''Continue regular care and monitoring'' \<and>
           pesticide r = \<lparr>name = ''No treatment needed'', dosage = ''N/A'', type = ''N/A''\<rparr>)"
    unfolding py_in_lower_iff[symmetric]
    using disease_compose_in_range[OF a, of dp]
    by (simp add: mk_result_def healthy_record_def mk_advisory_def)
  from 1 2 3 4 5 show ?thesis by blast
qed

theorem advisory_fallback_witness:
  "np_argmax [0, 0, 0, 0, 0, 1] = Inr 5 \<and>
   class_names (new_DiseasePredictor ''disease_model.h5'') ! 5 = ''Cherry_Powdery_mildew'' \<and>
   disease_info (new_DiseasePredictor ''disease_model.h5'') ''Cherry_Powdery_mildew'' = None \<and>
   \<not> (\<exists>ps m ss. ''Cherry_Powdery_mildew'' = ps @ m @ ss \<and> lower m = ''healthy'') \<and>
   (\<exists>r. disease_compose (new_DiseasePredictor ''disease_model.h5'') [0, 0, 0, 0, 0, 1] = Inr r \<and>
        description r = ''Disease detected'' \<and>
        treatment r = ''Consult agricultural expert for treatment'' \<and>
        pesticide r = \<lparr>name = ''General Fungicide'', dosage = ''As per label'', type = ''Fungicide''\<rparr>) \<and>
   pest_class_names ((new_PestPredictor ''pest_model.h5'')\<lparr>pest_info := Map.empty\<rparr>) ! 5 = ''grasshopper'' \<and>
   (\<exists>r. pest_compose ((new_PestPredictor ''pest_model.h5'')\<lparr>pest_info := Map.empty\<rparr>)
          [0, 0, 0, 0, 0, 1] = Inr r \<and>
        description r = ''Pest detected'' \<and>
        treatment r = ''Consult agricultural expert for treatment'' \<and>
        pesticide r = \<lparr>name = ''General Insecticide'', dosage = ''As per label'', type = ''Insecticide''\<rparr>)"
proof -
  let ?D = "new_DiseasePredictor ''disease_model.h5''"
  let ?Q = "(new_PestPredictor ''pest_model.h5'')\<lparr>pest_info := Map.empty\<rparr>"
  let ?P = "[0, 0, 0, 0, 0, 1] :: real list"
  have a: "np_argmax ?P = Inr 5" by simp
  have b: "class_names ?D ! 5 = ''Cherry_Powdery_mildew''" "5 < length (class_names ?D)"
    by (simp_all add: new_DiseasePredictor_def disease_class_names_def)
  have c: "disease_info ?D ''Cherry_Powdery_mildew'' = None"
    by (simp add: new_DiseasePredictor_def disease_info_table_def)
  have "\<not> py_in ''healthy'' (lower ''Cherry_Powdery_mildew'')"
    by (simp add: lower_def lower_char_def ascii_upper_def ascii_lower_def)
  then have d: "\<not> (\<exists>ps m ss. ''Cherry_Powdery_mildew'' = ps @ m @ ss \<and> lower m = ''healthy'')"
    unfolding py_in_lower_iff .
  have e: "pest_class_names ?Q ! 5 = ''grasshopper''" "5 < length (pest_class_names ?Q)"
    "pest_info ?Q ''grasshopper'' = None"
    by (simp_all add: new_PestPredictor_def pest_class_names_list_def)
  note t = advisory_fallback[OF a, of ?D ?Q]
  have 1: "\<exists>r. disease_compose ?D ?P = Inr r \<and>
        description r = ''Disease detected'' \<and>
        treatment r = ''Consult agricultural expert for treatment'' \<and>
        pesticide r = \<lparr>name = ''General Fungicide'', dosage = ''As per label'', type = ''Fungicide''\<rparr>"
    using t b c d by (simp only: simp_thms)
  have 2: "\<exists>r. pest_compose ?Q ?P = Inr r \<and>
        description r = ''Pest detected'' \<and>
        treatment r = ''Consult agricultural expert for treatment'' \<and>
        pesticide r = \<lparr>name = ''General Insecticide'', dosage = ''As per label'', type = ''Insecticide''\<rparr>"
    using t e by (simp only: simp_thms)
  from a b(1) c d 1 e(1) 2 show ?thesis by blast
qed




text \<open>The pest table covers the pest label list.\<close>

lemma pest_labels_have_entries:
  "\<forall>l \<in> set pest_class_names_list. \<exists>a. map_of pest_info_table l = Some a"
  by (simp add: pest_class_names_list_def pest_info_table_def)

text \<open>
  C10. Every pest label has an entry in the pest advisory table, so for every predicted
  index within the label list the description, treatment and pesticide of the response
  of a \<open>PestPredictor\<close> are those of the table's entry for the predicted label, never
  the generic fallback.
\<close>

theorem pest_fallback_unreachable:
  "(\<forall>l \<in> set pest_class_names_list. l \<in> dom (map_of pest_info_table)) \<and>
   (np_argmax probs = Inr i \<and> i < length pest_class_names_list \<longrightarrow>
      (\<exists>a r. map_of pest_info_table (pest_class_names_list ! i) = Some a \<and>
             pest_compose ((new_PestPredictor path)\<lparr>pest_model := m\<rparr>) probs = Inr r \<and>
             description r = description a \<and> treatment r = treatment a \<and>
             pesticide r = pesticide a))"
proof -
  let ?Q = "(new_PestPredictor path)\<lparr>pest_model := m\<rparr>"
  have q: "pest_class_names ?Q = pest_class_names_list" "pest_info ?Q = map_of pest_info_table"
    by (simp_all add: new_PestPredictor_def)
  have 1: "\<forall>l \<in> set pest_class_names_list. l \<in> dom (map_of pest_info_table)"
    using pest_labels_have_entries by blast
  have 2: "np_argmax probs = Inr i \<and> i < length pest_class_names_list \<longrightarrow>
      (\<exists>a r. map_of pest_info_table (pest_class_names_list ! i) = Some a \<and>
             pest_compose ?Q probs = Inr r \<and>
             description r = description a \<and> treatment r = treatment a \<and>
             pesticide r = pesticide a)"
  proof
    assume h: "np_argmax probs = Inr i \<and> i < length pest_class_names_list"
    then have "pest_class_names_list ! i \<in> set pest_class_names_list" by simp
    with pest_labels_have_entries obtain a where
      a: "map_of pest_info_table (pest_class_names_list ! i) = Some a" by blast
    let ?r = "mk_result (replace_char (CHR ''_'') (CHR '' '') (upper (pest_class_names_list ! i)))
                (probs ! i) a"
    have c: "pest_compose ?Q probs = Inr ?r"
      using pest_compose_in_range[of probs i ?Q] h a unfolding q by (simp add: dict_get_def)
    have f: "description ?r = description a \<and> treatment ?r = treatment a \<and>
             pesticide ?r = pesticide a"
      by (simp add: mk_result_def)
    from a c f show "\<exists>a r. map_of pest_info_table (pest_class_names_list ! i) = Some a \<and>
             pest_compose ?Q probs = Inr r \<and>
             description r = description a \<and> treatment r = treatment a \<and>
             pesticide r = pesticide a" by blast
  qed
  from 1 2 show ?thesis by blast
qed

theorem pest_fallback_unreachable_witness:
  "np_argmax [1/10, 2/10, 7/10] = Inr 2 \<and> 2 < length pest_class_names_list \<and>
   pest_class_names_list ! 2 = ''beetle'' \<and>
   (\<exists>r. pest_compose ((new_PestPredictor ''pest_model.h5'')\<lparr>pest_model := None\<rparr>)
          [1/10, 2/10, 7/10] = Inr r \<and>
        description r = ''Hard-bodied insects that chew on leaves and stems'' \<and>
        treatment r = ''Apply Cypermethrin or use mechanical removal'' \<and>
        pesticide r = \<lparr>name = ''Cypermethrin'', dosage = ''1-2 ml/L'', type = ''Contact Insecticide''\<rparr>)"
proof -
  let ?P = "[1/10, 2/10, 7/10] :: real list"
  let ?Q = "(new_PestPredictor ''pest_model.h5'')\<lparr>pest_model := None\<rparr>"
  have a: "np_argmax ?P = Inr 2" by simp
  have b: "2 < length pest_class_names_list" by (simp add: pest_class_names_list_def)
  have c: "pest_class_names_list ! 2 = ''beetle''" by (simp add: pest_class_names_list_def)
  have d: "map_of pest_info_table ''beetle'' =
     Some \<lparr>description = ''Hard-bodied insects that chew on leaves and stems'',
           treatment = ''Apply Cypermethrin or use mechanical removal'',
           pesticide = \<lparr>name = ''Cypermethrin'', dosage = ''1-2 ml/L'', type = ''Contact Insecticide''\<rparr>\<rparr>"
    by (simp add: pest_info_table_def mk_advisory_def)
  from pest_fallback_unreachable[where probs = ?P and i = 2 and path = "''pest_model.h5''" and m = None]
    a b
  obtain x r where xr: "map_of pest_info_table (pest_class_names_list ! 2) = Some x"
    "pest_compose ?Q ?P = Inr r" "description r = description x" "treatment r = treatment x"
    "pesticide r = pesticide x"
    by blast
  from xr(1) c d have "x = \<lparr>description = ''Hard-bodied insects that chew on leaves and stems'',
           treatment = ''Apply Cypermethrin or use mechanical removal'',
           pesticide = \<lparr>name = ''Cypermethrin'', dosage = ''1-2 ml/L'', type = ''Contact Insecticide''\<rparr>\<rparr>"
    by simp
  with xr have "\<exists>r. pest_compose ?Q ?P = Inr r \<and>
        description r = ''Hard-bodied insects that chew on leaves and stems'' \<and>
        treatment r = ''Apply Cypermethrin or use mechanical removal'' \<and>
        pesticide r = \<lparr>name = ''Cypermethrin'', dosage = ''1-2 ml/L'', type = ''Contact Insecticide''\<rparr>"
    by simp
  with a b c show ?thesis by blast
qed

section \<open>The command line\<close>

text \<open>A model path that does not exist: \<open>load_model\<close> prints a line, then re-raises.\<close>

lemma load_model_missing:
  "\<not> path_exists e path \<Longrightarrow>
   load_model e path out =
     (Inl (FileNotFoundError (''Model file not found: '' @ path)),
      out @ [Text (''Error loading model: Model file not found: '' @ path)])"
  by (simp add: load_model_def)

lemma disease_main_missing_model:
  "length argv = 3 \<Longrightarrow> \<not> path_exists e (argv ! 1) \<Longrightarrow>
   disease_main e argv =
     ([Text (''Error loading model: Model file not found: '' @ argv ! 1),
       Json (ErrorObject (''Model file not found: '' @ argv ! 1))], 1)"
  by (simp add: disease_main_def DiseasePredictor_init_def new_DiseasePredictor_def load_model_missing Let_def)

lemma pest_main_missing_model:
  "length argv = 3 \<Longrightarrow> \<not> path_exists e (argv ! 1) \<Longrightarrow>
   pest_main e argv =
     ([Text (''Error loading model: Model file not found: '' @ argv ! 1),
       Json (ErrorObject (''Model file not found: '' @ argv ! 1))], 1)"
  by (simp add: pest_main_def PestPredictor_init_def new_PestPredictor_def load_model_missing Let_def)

text \<open>
  Every run prints a JSON object last: the response with status 0, or an error object
  with status 1. Lines before it come from \<open>load_model\<close> or from Keras.
\<close>

lemma disease_main_outcomes:
  "(\<exists>pre r. disease_main e argv = (pre @ [Json (ResultObject r)], 0)) \<or>
   (\<exists>pre msg. disease_main e argv = (pre @ [Json (ErrorObject msg)], 1))"
proof (cases "disease_main e argv")
  case (Pair out st)
  then have "(\<exists>pre r. out = pre @ [Json (ResultObject r)] \<and> st = 0) \<or>
             (\<exists>pre msg. out = pre @ [Json (ErrorObject msg)] \<and> st = 1)"
    by (auto simp: disease_main_def Let_def split: sum.splits prod.splits if_splits)
  with Pair show ?thesis by auto
qed

lemma pest_main_outcomes:
  "(\<exists>pre r. pest_main e argv = (pre @ [Json (ResultObject r)], 0)) \<or>
   (\<exists>pre msg. pest_main e argv = (pre @ [Json (ErrorObject msg)], 1))"
proof (cases "pest_main e argv")
  case (Pair out st)
  then have "(\<exists>pre r. out = pre @ [Json (ResultObject r)] \<and> st = 0) \<or>
             (\<exists>pre msg. out = pre @ [Json (ErrorObject msg)] \<and> st = 1)"
    by (auto simp: pest_main_def Let_def split: sum.splits prod.splits if_splits)
  with Pair show ?thesis by auto
qed

text \<open>
  A run that reaches \<open>predict\<close> prints what Keras writes before its JSON object.
\<close>

lemma disease_main_demo_run:
  "disease_main demo_env [''disease_predictor.py'', ''disease_model.h5'', ''leaf.jpg''] =
     ([Text ''1/1 - 0s'',
       Json (ResultObject
         \<lparr>description = ''Fungal disease causing black cankers on branches and fruit rot'',
          treatment = ''Prune infected areas and apply Captan or Thiophanate-methyl'',
          pesticide = \<lparr>name = ''Captan'', dosage = ''2-3 g/L'', type = ''Fungicide''\<rparr>,
          detected_class = ''Apple_Black_rot'', confidence = 7 / 10\<rparr>)], 0)"
  by (simp add: disease_main_def DiseasePredictor_init_def new_DiseasePredictor_def load_model_def
      demo_env_def disease_predict_def infer_def preprocess_image_def model_predict_def
      first_row_def wrap_prediction_error_def disease_compose_def getitem_def
      disease_class_names_def dict_get_def disease_info_table_def mk_result_def mk_advisory_def
      lower_def lower_char_def ascii_upper_def ascii_lower_def Let_def)

text \<open>
  C7. With a model path that does not exist, standard output holds two lines: the text
  \<open>Error loading model: Model file not found: missing.h5\<close> printed by \<open>load_model\<close>,
  then the error object with the message \<open>Model file not found: missing.h5\<close>; the exit
  status is 1.
\<close>

theorem missing_model_output:
  "disease_main demo_env [''disease_predictor.py'', ''missing.h5'', ''leaf.jpg''] =
     ([Text ''Error loading model: Model file not found: missing.h5'',
       Json (ErrorObject ''Model file not found: missing.h5'')], 1) \<and>
   pest_main demo_env [''pest_predictor.py'', ''missing.h5'', ''leaf.jpg''] =
     ([Text ''Error loading model: Model file not found: missing.h5'',
       Json (ErrorObject ''Model file not found: missing.h5'')], 1)"
proof -
  have "\<not> path_exists demo_env ''missing.h5''" by (simp add: demo_env_def)
  then show ?thesis
    using disease_main_missing_model[of "[''disease_predictor.py'', ''missing.h5'', ''leaf.jpg'']" demo_env]
      pest_main_missing_model[of "[''pest_predictor.py'', ''missing.h5'', ''leaf.jpg'']" demo_env]
    by simp
qed

text \<open>
  C8. Called with any number of positional arguments other than two, each program
  prints its usage error object and nothing else, and exits with status 1.
\<close>

theorem usage_error:
  "argv = prog # args \<Longrightarrow> length args \<noteq> 2 \<Longrightarrow>
   disease_main e argv = ([Json (ErrorObject disease_usage)], 1) \<and>
   pest_main e argv = ([Json (ErrorObject pest_usage)], 1)"
  by (simp add: disease_main_def pest_main_def)

theorem usage_error_witness:
  "length [''only_model.h5''] \<noteq> 2 \<and>
   disease_main demo_env [''disease_predictor.py'', ''only_model.h5''] =
     ([Json (ErrorObject ''Usage: python disease_predictor.py <model_path> <image_path>'')], 1) \<and>
   pest_main demo_env [''disease_predictor.py'', ''only_model.h5''] =
     ([Json (ErrorObject ''Usage: python pest_predictor.py <model_path> <image_path>'')], 1)"
  using usage_error[of "[''disease_predictor.py'', ''only_model.h5'']" "''disease_predictor.py''"
      "[''only_model.h5'']" demo_env]
  by (simp add: disease_usage_def pest_usage_def)

section \<open>Preprocessing\<close>

text \<open>An 8-bit channel divided by 255 lies between 0 and 1.\<close>

lemma channel_in_unit_interval:
  fixes c :: "8 word"
  shows "0 \<le> real (unat c) / 255 \<and> real (unat c) / 255 \<le> 1"
proof -
  have "unat c < 2 ^ LENGTH(8)" by (rule unsigned_less)
  then have "unat c \<le> 255" by simp
  then have hi: "real (unat c) \<le> real 255" by (simp only: of_nat_le_iff)
  have lo: "0 \<le> real (unat c)" by (simp only: of_nat_0_le_iff)
  from lo hi show ?thesis by simp
qed

lemma pixel_in_unit_interval:
  fixes c0 c1 c2 :: "8 word"
  assumes "v \<in> set [real (unat c0) / 255, real (unat c1) / 255, real (unat c2) / 255]"
  shows "0 \<le> v \<and> v \<le> 1"
proof -
  from assms consider "v = real (unat c0) / 255" | "v = real (unat c1) / 255" | "v = real (unat c2) / 255"
    by (auto simp del: eq_divide_eq_numeral1)
  then show ?thesis
  proof cases
    case 1 then show ?thesis by (simp only: channel_in_unit_interval)
  next
    case 2 then show ?thesis by (simp only: channel_in_unit_interval)
  next
    case 3 then show ?thesis by (simp only: channel_in_unit_interval)
  qed
qed

lemma astype_float32_div_255_shape:
  "image_has_size img h w \<Longrightarrow> has_shape (expand_dims_axis0 (astype_float32_div_255 img)) (1, h, w, 3)"
  by (auto simp: image_has_size_def has_shape_def expand_dims_axis0_def astype_float32_div_255_def
      list_all_iff split: prod.splits)

lemma astype_float32_div_255_range:
  "list_all (\<lambda>v. 0 \<le> v \<and> v \<le> 1) (tensor_values (expand_dims_axis0 (astype_float32_div_255 img)))"
proof -
  have "0 \<le> v \<and> v \<le> 1"
    if "v \<in> set (tensor_values (expand_dims_axis0 (astype_float32_div_255 img)))" for v
  proof -
    from that obtain row c0 c1 c2 where "row \<in> set img" "(c0, c1, c2) \<in> set row"
      "v \<in> set [real (unat c0) / 255, real (unat c1) / 255, real (unat c2) / 255]"
      by (auto simp: tensor_values_def expand_dims_axis0_def astype_float32_div_255_def
          simp del: eq_divide_eq_numeral1)
    then show ?thesis using pixel_in_unit_interval by blast
  qed
  then show ?thesis by (simp add: list_all_iff)
qed

text \<open>
  C9. For every image that decodes, whatever its size, given that \<open>cv2.resize\<close> returns
  an image of the requested 224 x 224 size, the preprocessor returns a tensor of shape
  (1, 224, 224, 3) whose values all lie in [0, 1], each being a channel of the resized
  RGB image divided by 255.
\<close>

theorem preprocess_shape_and_range:
  "cv2_imread e image_path = Some img \<Longrightarrow>
   image_has_size (cv2_resize e (cvtColor_BGR2RGB img) (224, 224)) 224 224 \<Longrightarrow>
   (\<exists>t. preprocess_image e image_path = Inr t \<and>
        has_shape t (1, 224, 224, 3) \<and>
        list_all (\<lambda>v. 0 \<le> v \<and> v \<le> 1) (tensor_values t) \<and>
        t = [map (map (\<lambda>(r, g, b). [real (unat r) / 255, real (unat g) / 255, real (unat b) / 255]))
               (cv2_resize e (cvtColor_BGR2RGB img) (224, 224))])"
proof -
  assume rd: "cv2_imread e image_path = Some img"
    and sz: "image_has_size (cv2_resize e (cvtColor_BGR2RGB img) (224, 224)) 224 224"
  let ?r = "cv2_resize e (cvtColor_BGR2RGB img) (224, 224)"
  let ?t = "expand_dims_axis0 (astype_float32_div_255 ?r)"
  have 1: "preprocess_image e image_path = Inr ?t"
    using rd by (simp add: preprocess_image_def)
  have 2: "has_shape ?t (1, 224, 224, 3)"
    using sz by (rule astype_float32_div_255_shape)
  have 3: "list_all (\<lambda>v. 0 \<le> v \<and> v \<le> 1) (tensor_values ?t)"
    by (rule astype_float32_div_255_range)
  have 4: "?t = [map (map (\<lambda>(r, g, b). [real (unat r) / 255, real (unat g) / 255, real (unat b) / 255])) ?r]"
    by (simp add: expand_dims_axis0_def astype_float32_div_255_def)
  from 1 2 3 4 show ?thesis by blast
qed

theorem preprocess_shape_and_range_witness:
  "cv2_imread demo_env ''leaf.jpg'' = Some [ [(10, 20, 30)] ] \<and>
   image_has_size (cv2_resize demo_env (cvtColor_BGR2RGB [ [(10, 20, 30)] ]) (224, 224)) 224 224 \<and>
   (\<exists>t. preprocess_image demo_env ''leaf.jpg'' = Inr t \<and> has_shape t (1, 224, 224, 3) \<and>
        list_all (\<lambda>v. 0 \<le> v \<and> v \<le> 1) (tensor_values t) \<and>
        t = [replicate 224 (replicate 224 [30 / 255, 20 / 255, 10 / 255])])"
proof -
  have a: "cv2_imread demo_env ''leaf.jpg'' = Some [ [(10, 20, 30)] ]"
    by (simp add: demo_env_def)
  have r: "cv2_resize demo_env (cvtColor_BGR2RGB [ [(10, 20, 30)] ]) (224, 224) =
             replicate 224 (replicate 224 (30, 20, 10))"
    by (simp add: demo_env_def cvtColor_BGR2RGB_def)
  have b: "image_has_size (cv2_resize demo_env (cvtColor_BGR2RGB [ [(10, 20, 30)] ]) (224, 224)) 224 224"
    unfolding r by (simp add: image_has_size_def list_all_iff)
  from preprocess_shape_and_range[OF a b] obtain t where
    t: "preprocess_image demo_env ''leaf.jpg'' = Inr t" "has_shape t (1, 224, 224, 3)"
       "list_all (\<lambda>v. 0 \<le> v \<and> v \<le> 1) (tensor_values t)"
       "t = [map (map (\<lambda>(r, g, b). [real (unat r) / 255, real (unat g) / 255, real (unat b) / 255]))
               (cv2_resize demo_env (cvtColor_BGR2RGB [ [(10, 20, 30)] ]) (224, 224))]"
    by blast
  have "t = [replicate 224 (replicate 224 [30 / 255, 20 / 255, 10 / 255])]"
    unfolding t(4) r by simp
  with a b t(1,2,3) show ?thesis by blast
qed

end
